theory Spec2Isabelle
  imports Complex_Main
begin

section \<open>Vectors of the scene graph\<close>

text \<open>
  Both components compute with \<^verbatim>\<open>THREE.Vector3\<close>. The three.js library is not part of
  the repository; the operations below are the ones the two source files call, each
  written as three.js defines it. JavaScript numbers are modelled as real numbers: the
  development is about the geometry and the control flow, not about rounding.
\<close>

datatype vec3 = Vector3 (vec_x: real) (vec_y: real) (vec_z: real)

definition sub :: "vec3 \<Rightarrow> vec3 \<Rightarrow> vec3" where
  "sub a b = Vector3 (vec_x a - vec_x b) (vec_y a - vec_y b) (vec_z a - vec_z b)"

definition subVectors :: "vec3 \<Rightarrow> vec3 \<Rightarrow> vec3" where
  "subVectors a b = Vector3 (vec_x a - vec_x b) (vec_y a - vec_y b) (vec_z a - vec_z b)"

definition addScaledVector :: "vec3 \<Rightarrow> vec3 \<Rightarrow> real \<Rightarrow> vec3" where
  "addScaledVector a v s =
     Vector3 (vec_x a + vec_x v * s) (vec_y a + vec_y v * s) (vec_z a + vec_z v * s)"

definition multiplyScalar :: "vec3 \<Rightarrow> real \<Rightarrow> vec3" where
  "multiplyScalar a s = Vector3 (vec_x a * s) (vec_y a * s) (vec_z a * s)"

definition length_vec :: "vec3 \<Rightarrow> real" where
  "length_vec a = sqrt (vec_x a * vec_x a + vec_y a * vec_y a + vec_z a * vec_z a)"

definition divideScalar :: "vec3 \<Rightarrow> real \<Rightarrow> vec3" where
  "divideScalar a s = Vector3 (vec_x a / s) (vec_y a / s) (vec_z a / s)"

definition normalize_vec :: "vec3 \<Rightarrow> vec3" where
  \<comment> \<open>\<^verbatim>\<open>this.divideScalar(this.length() || 1)\<close>: the zero vector stays as it is.\<close>
  "normalize_vec a = divideScalar a (if length_vec a = 0 then 1 else length_vec a)"

definition distanceToSquared :: "vec3 \<Rightarrow> vec3 \<Rightarrow> real" where
  "distanceToSquared a b =
     (vec_x a - vec_x b) * (vec_x a - vec_x b)
     + (vec_y a - vec_y b) * (vec_y a - vec_y b)
     + (vec_z a - vec_z b) * (vec_z a - vec_z b)"

definition distanceTo :: "vec3 \<Rightarrow> vec3 \<Rightarrow> real" where
  "distanceTo a b = sqrt (distanceToSquared a b)"

section \<open>The grab controller (move-objects.js)\<close>

subsection \<open>Data\<close>

text \<open>
  An exception of the JavaScript run time ends the handler that raised it; the effects
  made before it stay. Every operation therefore returns how it ended together with
  the state it left.
\<close>

datatype js_error = ReferenceError | TypeError

datatype outcome = Returned | Threw js_error

text \<open>
  A rigid body of the physics engine, as far as the component touches it. The type
  \<open>'t\<close> is the engine's transform type (\<^verbatim>\<open>btTransform\<close>).
\<close>

record 't rigid_body =
  body_id :: nat
  worldTransform :: 't

record movement_data =
  movement_type :: string

text \<open>
  A scene element with the \<^verbatim>\<open>ammo-body\<close> attribute, as \<^verbatim>\<open>onButtonDown\<close> reads it:
  its identity, \<^verbatim>\<open>getAttribute('movement')\<close>, whether \<^verbatim>\<open>getObject3D('mesh')\<close> is
  there, its world position and its \<^verbatim>\<open>body\<close>.
\<close>

record 't entity =
  el_id :: nat
  el_movement :: "movement_data option"
  el_mesh :: bool
  el_worldPosition :: vec3
  el_body :: "'t rigid_body option"

text \<open>
  The physics library is not part of the repository. The component only calls it, so
  the effect of each call is a parameter: what a fresh \<^verbatim>\<open>btTransform\<close> holds, and what
  the transform that receives a call holds afterwards.
\<close>

record 't ammo_library =
  btTransform_new :: 't
  getWorldTransform :: "'t rigid_body \<Rightarrow> 't \<Rightarrow> 't"
  inverse_tr :: "'t \<Rightarrow> 't"
  op_mul :: "'t \<Rightarrow> 't \<Rightarrow> 't \<Rightarrow> 't"
  setIdentity :: "'t \<Rightarrow> 't"

text \<open>
  A \<^verbatim>\<open>btGeneric6DofConstraint\<close>: the constructor's five arguments and the four limits;
  a limit is \<open>None\<close> until its setter is called.
\<close>

record 't btGeneric6DofConstraint =
  rbA :: nat
  rbB :: nat
  frameInA :: 't
  frameInB :: 't
  useLinearReferenceFrameA :: bool
  linearLowerLimit :: "vec3 option"
  linearUpperLimit :: "vec3 option"
  angularLowerLimit :: "vec3 option"
  angularUpperLimit :: "vec3 option"

text \<open>
  The component's two fields, and the part of the world it changes: the constraints
  registered with the physics world (each with the flag that disables collisions between
  the linked bodies), the activation state of every body, and the events emitted so far.
\<close>

record 't grab_control =
  constraint :: "'t btGeneric6DofConstraint option"
  grabbedObject :: "'t entity option"
  physicsWorld :: "('t btGeneric6DofConstraint \<times> bool) list"
  activationState :: "nat \<Rightarrow> nat"
  emitted :: "(nat \<times> string) list"

text \<open>
  What a handler finds when it runs: the hand element and its body, the elements the
  scene query returns, \<^verbatim>\<open>window.Ammo\<close>, whether the scene has a physics system, and
  whether the free identifier \<^verbatim>\<open>ammo\<close> that \<^verbatim>\<open>release\<close> reads is bound in the global
  scope (the file declares it only inside \<^verbatim>\<open>grab\<close>).
\<close>

record 't grab_env =
  self_id :: nat
  handWorldPosition :: vec3
  handBody :: "'t rigid_body option"
  els :: "'t entity list"
  window_Ammo :: "'t ammo_library option"
  systems_physics :: bool
  global_ammo :: bool

subsection \<open>Operations\<close>

definition init :: "'t grab_control \<Rightarrow> 't grab_control" where
  "init s = s\<lparr>constraint := None, grabbedObject := None\<rparr>"

definition isGrabbable :: "'t entity \<Rightarrow> bool" where
  "isGrabbable el =
     (case el_movement el of None \<Rightarrow> False | Some m \<Rightarrow> movement_type m = ''grabbable'')"

text \<open>The loop of \<^verbatim>\<open>onButtonDown\<close> over the elements, with its two variables.\<close>

fun scan :: "nat \<Rightarrow> vec3 \<Rightarrow> 't entity list \<Rightarrow> 't entity option \<Rightarrow> real \<Rightarrow> 't entity option" where
  "scan self handPos [] closestEl minDist = closestEl"
| "scan self handPos (e # rest) closestEl minDist =
     (if el_id e = self then scan self handPos rest closestEl minDist
      else if \<not> isGrabbable e then scan self handPos rest closestEl minDist
      else if \<not> el_mesh e then scan self handPos rest closestEl minDist
      else if distanceTo handPos (el_worldPosition e) < minDist
        then scan self handPos rest (Some e) (distanceTo handPos (el_worldPosition e))
        else scan self handPos rest closestEl minDist)"

definition zero_limit :: vec3 where
  "zero_limit = Vector3 0 0 0"

definition new_constraint ::
  "'t ammo_library \<Rightarrow> 't rigid_body \<Rightarrow> 't rigid_body \<Rightarrow> 't btGeneric6DofConstraint" where
  "new_constraint ammo hb ob =
     (let handWorldInv = inverse_tr ammo (getWorldTransform ammo hb (btTransform_new ammo));
          objWorld = getWorldTransform ammo ob (btTransform_new ammo);
          localFrameA = op_mul ammo (btTransform_new ammo) handWorldInv objWorld;
          localFrameB = setIdentity ammo (btTransform_new ammo);
          c = \<lparr>rbA = body_id hb, rbB = body_id ob, frameInA = localFrameA,
               frameInB = localFrameB, useLinearReferenceFrameA = False,
               linearLowerLimit = None, linearUpperLimit = None,
               angularLowerLimit = None, angularUpperLimit = None\<rparr>
      in c\<lparr>linearLowerLimit := Some zero_limit, linearUpperLimit := Some zero_limit,
            angularLowerLimit := Some zero_limit, angularUpperLimit := Some zero_limit\<rparr>)"

definition grab :: "'t grab_env \<Rightarrow> 't entity \<Rightarrow> 't grab_control \<Rightarrow> outcome \<times> 't grab_control" where
  "grab env e s =
     (case handBody env of
        None \<Rightarrow> (Returned, s)
      | Some hb \<Rightarrow>
          (case el_body e of
             None \<Rightarrow> (Returned, s)
           | Some ob \<Rightarrow>
               (let s1 = s\<lparr>grabbedObject := Some e\<rparr> in
                case window_Ammo env of
                  None \<Rightarrow> (Returned, s1)
                | Some ammo \<Rightarrow>
                    (let c = new_constraint ammo hb ob;
                         s2 = s1\<lparr>constraint := Some c\<rparr>
                     in if \<not> systems_physics env then (Threw TypeError, s2)
                        else (Returned,
                          s2\<lparr>physicsWorld := physicsWorld s2 @ [(c, True)],
                             emitted := emitted s2 @ [(el_id e, ''grab-start'')],
                             activationState := (activationState s2)(body_id ob := 4)\<rparr>)))))"

text \<open>The value of \<^verbatim>\<open>closestEl\<close> when the loop ends: it starts at \<^verbatim>\<open>null\<close>, with
  \<^verbatim>\<open>minDist = 0.3\<close>.\<close>

definition find_closest :: "'t grab_env \<Rightarrow> 't entity option" where
  "find_closest env = scan (self_id env) (handWorldPosition env) (els env) None 0.3"

definition onButtonDown :: "'t grab_env \<Rightarrow> 't grab_control \<Rightarrow> outcome \<times> 't grab_control" where
  "onButtonDown env s =
     (if grabbedObject s \<noteq> None then (Returned, s)
      else (case find_closest env of
              None \<Rightarrow> (Returned, s)
            | Some closestEl \<Rightarrow> grab env closestEl s))"

text \<open>\<^verbatim>\<open>physicsWorld.removeConstraint\<close> takes the constraint out of the world's list.\<close>

fun removeConstraint :: "'c \<Rightarrow> ('c \<times> bool) list \<Rightarrow> ('c \<times> bool) list" where
  "removeConstraint c [] = []"
| "removeConstraint c (p # ps) = (if fst p = c then ps else p # removeConstraint c ps)"

definition release :: "'t grab_env \<Rightarrow> 't grab_control \<Rightarrow> outcome \<times> 't grab_control" where
  "release env s =
     (case constraint s of
        None \<Rightarrow> (Returned, s)
      | Some c \<Rightarrow>
          if \<not> systems_physics env then (Threw TypeError, s)
          else
            (let s1 = s\<lparr>physicsWorld := removeConstraint c (physicsWorld s)\<rparr> in
             if \<not> global_ammo env then (Threw ReferenceError, s1)
             else
               (let s2 = s1\<lparr>constraint := None\<rparr> in
                case grabbedObject s2 of
                  None \<Rightarrow> (Returned, s2)
                | Some g \<Rightarrow>
                    (case el_body g of
                       None \<Rightarrow> (Threw TypeError, s2)
                     | Some b \<Rightarrow>
                         (Returned,
                          s2\<lparr>activationState := (activationState s2)(body_id b := 1),
                             emitted := emitted s2 @ [(el_id g, ''grab-end'')],
                             grabbedObject := None\<rparr>)))))"

definition onButtonUp :: "'t grab_env \<Rightarrow> 't grab_control \<Rightarrow> outcome \<times> 't grab_control" where
  "onButtonUp env s =
     (if grabbedObject s \<noteq> None then release env s else (Returned, s))"

text \<open>
  The handlers are bound to the button events; a run of the component is a sequence of
  events, each with what the handler finds when it runs.
\<close>

datatype 't event = ButtonDown "'t grab_env" | ButtonUp "'t grab_env"

fun step :: "'t grab_control \<Rightarrow> 't event \<Rightarrow> 't grab_control" where
  "step s (ButtonDown env) = snd (onButtonDown env s)"
| "step s (ButtonUp env) = snd (onButtonUp env s)"

definition run :: "'t grab_control \<Rightarrow> 't event list \<Rightarrow> 't grab_control" where
  "run s evs = foldl step s evs"

section \<open>The teleport arc (component teleport-arc)\<close>

subsection \<open>Data\<close>

text \<open>The component's options that the handlers read (its schema).\<close>

record teleport_data =
  samples :: int
  velocity :: real
  gravity :: vec3
  landingClass :: string

text \<open>
  An intersection the raycaster returns: its point, and the element that owns the object
  hit (\<^verbatim>\<open>intersects[j].object.el\<close>), which may be missing and may lack a class list.
\<close>

record scene_el =
  classList :: "string list option"

record intersection =
  point :: vec3
  object_el :: "scene_el option"

text \<open>
  The rig. Its \<^verbatim>\<open>object3D.position\<close> is relative to its parent; the parent maps a
  world position to a local one and back. \<open>has_ammo_body\<close> is the test
  \<^verbatim>\<open>rigEl.getAttribute('ammo-body')\<close>. A body either has no \<^verbatim>\<open>setWorldTransform\<close>
  or has one whose call returns or throws.
\<close>

record object3D_parent =
  worldToLocal :: "vec3 \<Rightarrow> vec3"
  localToWorld :: "vec3 \<Rightarrow> vec3"

datatype call_result = Call_returns | Call_throws

record rig_body =
  setWorldTransform :: "call_result option"

record rig_el =
  rig_parent :: "object3D_parent option"
  has_ammo_body :: bool
  rig_el_body :: "rig_body option"

text \<open>
  The global \<^verbatim>\<open>CANNON\<close> that line 81 applies \<^verbatim>\<open>new\<close> to: not declared, bound to a
  value that is no constructor, or a constructor (with or without a constructor
  \<^verbatim>\<open>CANNON.Transform\<close>).
\<close>

datatype cannon_global = Undeclared | Not_a_constructor | Constructor bool

text \<open>
  The component's fields, the sample buffer of the arc line, and the position of the rig,
  which \<^verbatim>\<open>doTeleport\<close> changes.
\<close>

record teleport_arc =
  visible :: bool
  hitPoint :: "vec3 option"
  line_visible :: bool
  cursorMesh_visible :: bool
  cursorMesh_position :: vec3
  positions :: "real list"
  rig_position :: vec3

text \<open>
  What a handler finds when it runs: the options, the rig, the world position of the
  scene's camera (when the scene has one), the controller's world position and
  direction, and the scene as the raycaster sees it: for an origin, a direction and a
  maximum range, the ordered list of intersections.
\<close>

record teleport_env =
  data :: teleport_data
  cameraRig :: "rig_el option"
  camera :: "vec3 option"
  cannon :: cannon_global
  worldPos :: vec3
  worldDir :: vec3
  intersectObjects :: "vec3 \<Rightarrow> vec3 \<Rightarrow> real \<Rightarrow> intersection list"

subsection \<open>Operations\<close>

definition showArc :: "teleport_arc \<Rightarrow> teleport_arc" where
  "showArc s = s\<lparr>visible := True, line_visible := True, cursorMesh_visible := False\<rparr>"

definition hideArc :: "teleport_arc \<Rightarrow> teleport_arc" where
  "hideArc s =
     s\<lparr>visible := False, line_visible := False, cursorMesh_visible := False, hitPoint := None\<rparr>"

text \<open>\<^verbatim>\<open>rigObj.getWorldPosition\<close>: the position, mapped by the parent when there is one.\<close>

definition getWorldPosition :: "rig_el \<Rightarrow> vec3 \<Rightarrow> vec3" where
  "getWorldPosition rigEl pos =
     (case rig_parent rigEl of None \<Rightarrow> pos | Some p \<Rightarrow> localToWorld p pos)"

text \<open>
  The two statements every fallback branch runs: convert into the parent's space when
  there is a parent, then copy into the rig's position.
\<close>

definition assign_position :: "rig_el \<Rightarrow> vec3 \<Rightarrow> teleport_arc \<Rightarrow> teleport_arc" where
  "assign_position rigEl newRigWorld s =
     s\<lparr>rig_position :=
         (case rig_parent rigEl of None \<Rightarrow> newRigWorld | Some p \<Rightarrow> worldToLocal p newRigWorld)\<rparr>"

text \<open>
  Whether the statement in the \<^verbatim>\<open>try\<close> block throws. Without the method the
  conjunction is false and nothing is called. With it the argument is evaluated first:
  \<^verbatim>\<open>new CANNON\<close>, then \<^verbatim>\<open>new CANNON.Transform()\<close>, then the call.
\<close>

definition try_throws :: "cannon_global \<Rightarrow> rig_body \<Rightarrow> bool" where
  "try_throws c b =
     (case setWorldTransform b of
        None \<Rightarrow> False
      | Some r \<Rightarrow>
          (case c of
             Undeclared \<Rightarrow> True
           | Not_a_constructor \<Rightarrow> True
           | Constructor has_Transform \<Rightarrow>
               (if has_Transform then r = Call_throws else True)))"

definition doTeleport :: "teleport_env \<Rightarrow> teleport_arc \<Rightarrow> teleport_arc" where
  "doTeleport env s =
     (if \<not> visible s then s
      else
        (case hitPoint s of
           None \<Rightarrow> hideArc s
         | Some hit \<Rightarrow>
             (case cameraRig env of
                None \<Rightarrow> hideArc s
              | Some rigEl \<Rightarrow>
                  (case camera env of
                     None \<Rightarrow> s
                   | Some cameraWorldPos \<Rightarrow>
                       (let rigWorldPos = getWorldPosition rigEl (rig_position s);
                            offset = sub cameraWorldPos rigWorldPos;
                            newRigWorld = sub hit offset
                        in hideArc
                             (if has_ammo_body rigEl then
                                (case rig_el_body rigEl of
                                   Some b \<Rightarrow>
                                     if try_throws (cannon env) b
                                     then assign_position rigEl newRigWorld s
                                     else s
                                 | None \<Rightarrow> assign_position rigEl newRigWorld s)
                              else assign_position rigEl newRigWorld s))))))"

text \<open>The value of \<^verbatim>\<open>pos\<close> in iteration \<open>i\<close> of the loop of \<^verbatim>\<open>tick\<close>.\<close>

definition sample_pos :: "teleport_env \<Rightarrow> nat \<Rightarrow> vec3" where
  "sample_pos env i =
     (let t = real i * 0.06;
          forward = normalize_vec (worldDir env);
          g = Vector3 (vec_x (gravity (data env))) (vec_y (gravity (data env)))
                (vec_z (gravity (data env)));
          v0 = multiplyScalar forward (velocity (data env))
      in addScaledVector (addScaledVector (worldPos env) v0 t) g (0.5 * t * t))"

text \<open>
  The three writes into the buffer. A write past the end of a typed array has no
  effect, as an update of a list past its end has none.
\<close>

definition write_sample :: "real list \<Rightarrow> nat \<Rightarrow> vec3 \<Rightarrow> real list" where
  "write_sample buf i pos =
     buf[i * 3 := vec_x pos, i * 3 + 1 := vec_y pos, i * 3 + 2 := vec_z pos]"

definition is_landing :: "string \<Rightarrow> intersection \<Rightarrow> bool" where
  "is_landing cls x =
     (case object_el x of
        None \<Rightarrow> False
      | Some el \<Rightarrow> (case classList el of None \<Rightarrow> False | Some names \<Rightarrow> cls \<in> set names))"

text \<open>The inner loop over the intersections: the first one on a landing surface.\<close>

fun first_landing :: "string \<Rightarrow> intersection list \<Rightarrow> vec3 option" where
  "first_landing cls [] = None"
| "first_landing cls (x # xs) = (if is_landing cls x then Some (point x) else first_landing cls xs)"

text \<open>The body of \<^verbatim>\<open>if (prevPoint)\<close>: the ray cast along one segment, and its hit.\<close>

definition segment_hit :: "teleport_env \<Rightarrow> vec3 option \<Rightarrow> vec3 \<Rightarrow> vec3 option" where
  "segment_hit env prevPoint pos =
     (case prevPoint of
        None \<Rightarrow> None
      | Some prev \<Rightarrow>
          (let segDir = subVectors pos prev; len = length_vec segDir in
           if len > 0
           then first_landing (landingClass (data env))
                  (intersectObjects env prev (normalize_vec segDir) len)
           else None))"

text \<open>The loop over the samples, from iteration \<open>i\<close> on; it ends at the first hit.\<close>

function tick_loop ::
  "teleport_env \<Rightarrow> nat \<Rightarrow> vec3 option \<Rightarrow> real list \<Rightarrow> vec3 option \<times> real list" where
  "tick_loop env i prevPoint buf =
     (if int i < samples (data env) then
        (case segment_hit env prevPoint (sample_pos env i) of
           Some hit \<Rightarrow> (Some hit, write_sample buf i (sample_pos env i))
         | None \<Rightarrow>
             tick_loop env (Suc i) (Some (sample_pos env i))
               (write_sample buf i (sample_pos env i)))
      else (None, buf))"
  by pat_completeness auto
termination
  by (relation "measure (\<lambda>(env, i, prevPoint, buf). nat (samples (data env)) - i)") auto

definition tick :: "teleport_env \<Rightarrow> teleport_arc \<Rightarrow> teleport_arc" where
  "tick env s =
     (if \<not> visible s then s
      else
        (case tick_loop env 0 None (positions s) of
           (Some hit, buf) \<Rightarrow>
             s\<lparr>positions := buf, hitPoint := Some hit, cursorMesh_position := hit,
               cursorMesh_visible := False\<rparr>
         | (None, buf) \<Rightarrow>
             s\<lparr>positions := buf, hitPoint := None, cursorMesh_visible := False\<rparr>))"

text \<open>
  The fields \<^verbatim>\<open>init\<close> sets: the arc hidden, no hit, and a buffer of three numbers per
  sample, all zero. The position of the rig is the scene's.
\<close>

definition teleport_init :: "teleport_data \<Rightarrow> vec3 \<Rightarrow> teleport_arc" where
  "teleport_init d rigPos =
     \<lparr>visible = False, hitPoint = None, line_visible = False, cursorMesh_visible = False,
      cursorMesh_position = Vector3 0 0 0, positions = replicate (nat (samples d * 3)) 0,
      rig_position = rigPos\<rparr>"

section \<open>Specification-level definitions\<close>

text \<open>
  An element is eligible within radius \<open>r\<close> when it is not the hand, is marked grabbable,
  has a mesh, and lies strictly closer than \<open>r\<close>. An element is nearest in a list when it
  is eligible and no eligible element of the list is closer.
\<close>

definition eligible :: "nat \<Rightarrow> vec3 \<Rightarrow> real \<Rightarrow> 't entity \<Rightarrow> bool" where
  "eligible self handPos r e \<longleftrightarrow>
     el_id e \<noteq> self \<and> isGrabbable e \<and> el_mesh e
     \<and> distanceTo handPos (el_worldPosition e) < r"

definition nearest_in :: "nat \<Rightarrow> vec3 \<Rightarrow> real \<Rightarrow> 't entity list \<Rightarrow> 't entity \<Rightarrow> bool" where
  "nearest_in self handPos r xs e \<longleftrightarrow>
     eligible self handPos r e
     \<and> (\<forall>e' \<in> set xs. eligible self handPos r e' \<longrightarrow>
           distanceTo handPos (el_worldPosition e) \<le> distanceTo handPos (el_worldPosition e'))"

text \<open>
  At most one constraint of the component is registered with the physics world, and when
  one is, it is the component's constraint and an object is grabbed.
\<close>

definition one_session :: "'t grab_control \<Rightarrow> bool" where
  "one_session s \<longleftrightarrow>
     (case physicsWorld s of
        [] \<Rightarrow> True
      | [p] \<Rightarrow> constraint s = Some (fst p) \<and> grabbedObject s \<noteq> None
      | _ \<Rightarrow> False)"

text \<open>
  The trajectory as the specification states it: sample \<open>i\<close> lies at
  \<open>origin + v0 (i dt) + g (i dt)\<^sup>2 / 2\<close> with \<open>dt = 0.06\<close>, where \<open>v0\<close> is the normalised
  forward direction scaled by the configured velocity.
\<close>

definition parabola :: "teleport_env \<Rightarrow> nat \<Rightarrow> vec3" where
  "parabola env i =
     (let dt = 0.06; t = real i * dt;
          origin = worldPos env;
          v0 = multiplyScalar (normalize_vec (worldDir env)) (velocity (data env));
          g = gravity (data env)
      in Vector3 (vec_x origin + vec_x v0 * t + 0.5 * vec_x g * t\<^sup>2)
                 (vec_y origin + vec_y v0 * t + 0.5 * vec_y g * t\<^sup>2)
                 (vec_z origin + vec_z v0 * t + 0.5 * vec_z g * t\<^sup>2))"

text \<open>
  The landing point on the segment from \<open>p\<close> to \<open>q\<close>: a ray from \<open>p\<close> toward \<open>q\<close> whose
  range is their distance, and the point of its first intersection on a landing
  surface. Two samples at the same place span no ray.
\<close>

definition segment_landing :: "teleport_env \<Rightarrow> vec3 \<Rightarrow> vec3 \<Rightarrow> vec3 option" where
  "segment_landing env p q =
     (if 0 < distanceTo p q
      then map_option point
             (find (is_landing (landingClass (data env)))
                (intersectObjects env p (normalize_vec (subVectors q p)) (distanceTo p q)))
      else None)"

definition segment :: "teleport_env \<Rightarrow> nat \<Rightarrow> vec3 option" where
  "segment env k = segment_landing env (parabola env k) (parabola env (Suc k))"

text \<open>The first hit in a sequence of results, in order.\<close>

fun first_some :: "'a option list \<Rightarrow> 'a option" where
  "first_some [] = None"
| "first_some (None # xs) = first_some xs"
| "first_some (Some x # xs) = Some x"

text \<open>
  The landing hit of a frame: the hit of the first segment, in order, that has one; and
  the index of that segment.
\<close>

definition arc_hit :: "teleport_env \<Rightarrow> vec3 option" where
  "arc_hit env = first_some (map (segment env) [0..<nat (samples (data env)) - 1])"

definition hit_segment :: "teleport_env \<Rightarrow> nat option" where
  "hit_segment env = find (\<lambda>k. segment env k \<noteq> None) [0..<nat (samples (data env)) - 1]"

section \<open>Auxiliary definitions for the loop of tick\<close>

text \<open>Coordinate \<open>r\<close> of a vector, as the buffer stores it at offset \<open>r\<close>.\<close>

definition coord :: "vec3 \<Rightarrow> nat \<Rightarrow> real" where
  "coord p r = (if r = 0 then vec_x p else if r = 1 then vec_y p else vec_z p)"

text \<open>
  The value of \<^verbatim>\<open>prevPoint\<close> at the start of iteration \<open>i\<close>, the result of the check
  iteration \<open>i\<close> makes, and the iterations \<open>m\<close> the loop reaches when it starts at \<open>i\<close>.
\<close>

definition prev_of :: "teleport_env \<Rightarrow> nat \<Rightarrow> vec3 option" where
  "prev_of env i = (case i of 0 \<Rightarrow> None | Suc k \<Rightarrow> Some (sample_pos env k))"

definition iter_check :: "teleport_env \<Rightarrow> nat \<Rightarrow> vec3 option" where
  "iter_check env i = segment_hit env (prev_of env i) (sample_pos env i)"

definition written :: "teleport_env \<Rightarrow> nat \<Rightarrow> nat \<Rightarrow> bool" where
  "written env i m \<longleftrightarrow>
     i \<le> m \<and> int m < samples (data env) \<and> (\<forall>k. i \<le> k \<and> k < m \<longrightarrow> iter_check env k = None)"

section \<open>Concrete scenes\<close>

text \<open>
  A physics library on a line: a transform is a shift by an integer, reading a body's
  transform overwrites the receiver, inversion negates in place, and the product stores
  the sum of its two arguments in the receiver.
\<close>

definition shifts :: "int ammo_library" where
  "shifts =
     \<lparr>btTransform_new = 0, getWorldTransform = (\<lambda>b t. worldTransform b),
      inverse_tr = uminus, op_mul = (\<lambda>r a b. a + b), setIdentity = (\<lambda>t. 0)\<rparr>"

definition hand_body :: "int rigid_body" where
  "hand_body = \<lparr>body_id = 0, worldTransform = 5\<rparr>"

definition cube_body :: "int rigid_body" where
  "cube_body = \<lparr>body_id = 1, worldTransform = 7\<rparr>"

text \<open>A grabbable cube with a mesh and a body, at distance 0.2 from the hand.\<close>

definition cube :: "int entity" where
  "cube = \<lparr>el_id = 1, el_movement = Some \<lparr>movement_type = ''grabbable''\<rparr>, el_mesh = True,
            el_worldPosition = Vector3 0.2 0 0, el_body = Some cube_body\<rparr>"

text \<open>A grabbable element at distance 0.1 whose mesh is not attached.\<close>

definition ghost :: "int entity" where
  "ghost = \<lparr>el_id = 2, el_movement = Some \<lparr>movement_type = ''grabbable''\<rparr>, el_mesh = False,
             el_worldPosition = Vector3 0.1 0 0,
             el_body = Some \<lparr>body_id = 2, worldTransform = 6\<rparr>\<rparr>"

text \<open>A second grabbable element at distance 0.2, on the other side of the hand.\<close>

definition twin :: "int entity" where
  "twin = \<lparr>el_id = 3, el_movement = Some \<lparr>movement_type = ''grabbable''\<rparr>, el_mesh = True,
            el_worldPosition = Vector3 (- 0.2) 0 0,
            el_body = Some \<lparr>body_id = 3, worldTransform = 3\<rparr>\<rparr>"

text \<open>A grabbable element with a mesh at distance 0.3 exactly.\<close>

definition rim :: "int entity" where
  "rim = \<lparr>el_id = 4, el_movement = Some \<lparr>movement_type = ''grabbable''\<rparr>, el_mesh = True,
           el_worldPosition = Vector3 0.3 0 0,
           el_body = Some \<lparr>body_id = 4, worldTransform = 8\<rparr>\<rparr>"

text \<open>
  The hand at the origin with the cube in reach; the page loads the physics library as
  \<^verbatim>\<open>window.Ammo\<close> and binds no global \<^verbatim>\<open>ammo\<close>.
\<close>

definition scene :: "int grab_env" where
  "scene = \<lparr>self_id = 0, handWorldPosition = Vector3 0 0 0, handBody = Some hand_body,
             els = [cube], window_Ammo = Some shifts, systems_physics = True,
             global_ammo = False\<rparr>"

definition crowded :: "int grab_env" where
  "crowded = scene\<lparr>els := [ghost, rim, cube, twin]\<rparr>"

definition idle :: "int grab_control" where
  "idle = \<lparr>constraint = None, grabbedObject = None, physicsWorld = [],
            activationState = (\<lambda>b. 1), emitted = []\<rparr>"

text \<open>The state the component is in after the cube has been grabbed in \<open>scene\<close>.\<close>

definition held :: "int grab_control" where
  "held = \<lparr>constraint = Some (new_constraint shifts hand_body cube_body),
      grabbedObject = Some cube,
      physicsWorld = [(new_constraint shifts hand_body cube_body, True)],
      activationState = (\<lambda>b. 1)(1 := 4), emitted = [(1, ''grab-start'')]\<rparr>"

text \<open>
  The teleport component with three samples and the other options at their defaults; a
  rig without a parent and without a physics body; a scene in which every ray meets a
  landing surface at its origin, and one in which no ray meets anything.
\<close>

definition three_samples :: teleport_data where
  "three_samples = \<lparr>samples = 3, velocity = 6, gravity = Vector3 0 (- 9.8) 0,
                 landingClass = ''teleportable''\<rparr>"

definition plain_rig :: rig_el where
  "plain_rig = \<lparr>rig_parent = None, has_ammo_body = False, rig_el_body = None\<rparr>"

definition floor_here :: "vec3 \<Rightarrow> vec3 \<Rightarrow> real \<Rightarrow> intersection list" where
  "floor_here origin dir far =
     [\<lparr>point = origin, object_el = Some \<lparr>classList = Some [''teleportable'']\<rparr>\<rparr>]"

definition near_floor :: teleport_env where
  "near_floor = \<lparr>data = three_samples, cameraRig = Some plain_rig, camera = Some (Vector3 0 1.6 0),
                  cannon = Undeclared, worldPos = Vector3 0 0 0, worldDir = Vector3 0 0 (- 1),
                  intersectObjects = floor_here\<rparr>"

definition open_sky :: teleport_env where
  "open_sky = near_floor\<lparr>intersectObjects := (\<lambda>origin dir far. [])\<rparr>"

definition aiming :: teleport_arc where
  "aiming = showArc (teleport_init three_samples (Vector3 0 0 0))"

text \<open>An aiming state with a recorded hit five units ahead.\<close>

definition landed :: teleport_arc where
  "landed = aiming\<lparr>hitPoint := Some (Vector3 0 0 (- 5))\<rparr>"

text \<open>A rig with the \<^verbatim>\<open>ammo-body\<close> attribute whose body has no \<^verbatim>\<open>setWorldTransform\<close>.\<close>

definition physics_rig :: rig_el where
  "physics_rig = \<lparr>rig_parent = None, has_ammo_body = True,
                   rig_el_body = Some \<lparr>setWorldTransform = None\<rparr>\<rparr>"

text \<open>
  The calls as the Ammo.js binding declares them, on the line: a body's
  \<^verbatim>\<open>getWorldTransform\<close> takes no argument and returns the transform, so a transform
  passed to it is left as it was; \<^verbatim>\<open>inverse\<close> returns the inverse and leaves its
  receiver; \<^verbatim>\<open>op_mul\<close> multiplies its receiver by its first argument and reads no second
  one.
\<close>

definition ammo_js :: "int ammo_library" where
  "ammo_js =
     \<lparr>btTransform_new = 0, getWorldTransform = (\<lambda>b t. t),
      inverse_tr = (\<lambda>t. t), op_mul = (\<lambda>r a b. r + a), setIdentity = (\<lambda>t. 0)\<rparr>"

text \<open>
  A parent one unit along the first axis, and a rig below it with the \<^verbatim>\<open>ammo-body\<close>
  attribute whose body has \<^verbatim>\<open>setWorldTransform\<close>, as a rigid body of the physics
  library has.
\<close>

definition shifted_parent :: object3D_parent where
  "shifted_parent =
     \<lparr>worldToLocal = (\<lambda>v. sub v (Vector3 1 0 0)),
      localToWorld = (\<lambda>v. addScaledVector v (Vector3 1 0 0) 1)\<rparr>"

definition ammo_rig :: rig_el where
  "ammo_rig = \<lparr>rig_parent = Some shifted_parent, has_ammo_body = True,
                rig_el_body = Some \<lparr>setWorldTransform = Some Call_returns\<rparr>\<rparr>"

section \<open>Properties of the grab controller\<close>

subsection \<open>The scan selects the first nearest eligible element\<close>

lemma exists_nearest:
  "\<exists>e \<in> set xs. eligible self hp r e \<Longrightarrow> \<exists>e \<in> set xs. nearest_in self hp r xs e"
proof (induction xs)
  case Nil
  then show ?case by simp
next
  case (Cons x xs)
  show ?case
  proof (cases "\<exists>e \<in> set xs. eligible self hp r e")
    case False
    with Cons.prems have "eligible self hp r x" by auto
    with False have "nearest_in self hp r (x # xs) x"
      by (auto simp: nearest_in_def)
    then show ?thesis by auto
  next
    case True
    then obtain e where e: "e \<in> set xs" "nearest_in self hp r xs e"
      using Cons.IH by blast
    show ?thesis
    proof (cases "eligible self hp r x \<and> distanceTo hp (el_worldPosition x) < distanceTo hp (el_worldPosition e)")
      case True
      with e have "nearest_in self hp r (x # xs) x"
        by (fastforce simp: nearest_in_def)
      then show ?thesis by auto
    next
      case False
      with e have "nearest_in self hp r (x # xs) e"
        by (fastforce simp: nearest_in_def)
      with e show ?thesis by auto
    qed
  qed
qed

lemma find_nearest_Some:
  "\<exists>e \<in> set xs. eligible self hp r e \<Longrightarrow> find (nearest_in self hp r xs) xs \<noteq> None"
  using exists_nearest[of xs self hp r] by (auto simp: find_None_iff)

lemma scan_find:
  "scan self hp xs cur m =
     (case find (nearest_in self hp m xs) xs of None \<Rightarrow> cur | Some e \<Rightarrow> Some e)"
proof (induction xs arbitrary: cur m)
  case Nil
  then show ?case by simp
next
  case (Cons x xs)
  let ?d = "\<lambda>e. distanceTo hp (el_worldPosition e)"
  show ?case
  proof (cases "eligible self hp m x")
    case False
    then have scan: "scan self hp (x # xs) cur m = scan self hp xs cur m"
      by (auto simp: eligible_def)
    have "\<And>e. e \<in> set xs \<Longrightarrow> nearest_in self hp m (x # xs) e = nearest_in self hp m xs e"
      using False by (auto simp: nearest_in_def)
    then have "find (nearest_in self hp m (x # xs)) xs = find (nearest_in self hp m xs) xs"
      by (intro find_cong) auto
    moreover have "\<not> nearest_in self hp m (x # xs) x"
      using False by (simp add: nearest_in_def)
    ultimately show ?thesis
      using scan Cons.IH[of cur m] by simp
  next
    case True
    then have scan: "scan self hp (x # xs) cur m = scan self hp xs (Some x) (?d x)"
      by (auto simp: eligible_def)
    show ?thesis
    proof (cases "\<exists>e \<in> set xs. eligible self hp (?d x) e")
      case False
      then have "find (nearest_in self hp (?d x) xs) xs = None"
        by (auto simp: find_None_iff nearest_in_def)
      moreover have "nearest_in self hp m (x # xs) x"
        using True False by (fastforce simp: nearest_in_def eligible_def)
      ultimately show ?thesis
        using scan Cons.IH[of "Some x" "?d x"] by simp
    next
      case closer: True
      then obtain c where c: "c \<in> set xs" "eligible self hp (?d x) c" by blast
      have notx: "\<not> nearest_in self hp m (x # xs) x"
        using c True by (fastforce simp: nearest_in_def eligible_def)
      have "\<And>e. e \<in> set xs \<Longrightarrow>
              nearest_in self hp m (x # xs) e = nearest_in self hp (?d x) xs e"
        using c True by (fastforce simp: nearest_in_def eligible_def)
      then have "find (nearest_in self hp m (x # xs)) xs = find (nearest_in self hp (?d x) xs) xs"
        by (intro find_cong) auto
      moreover obtain e where "find (nearest_in self hp (?d x) xs) xs = Some e"
        using find_nearest_Some[OF closer] by auto
      ultimately show ?thesis
        using scan notx Cons.IH[of "Some x" "?d x"] by simp
    qed
  qed
qed

lemma find_closest_eq:
  "find_closest env = find (nearest_in (self_id env) (handWorldPosition env) 0.3 (els env)) (els env)"
  by (simp add: find_closest_def scan_find split: option.splits)

lemma find_closest_mesh: "find_closest env = Some e \<Longrightarrow> el_mesh e"
  by (auto simp: find_closest_eq find_Some_iff nearest_in_def eligible_def)

lemma grab_grabbedObject:
  "grabbedObject (snd (grab env c s)) = grabbedObject s \<or> grabbedObject (snd (grab env c s)) = Some c"
  by (simp add: grab_def Let_def split: option.splits)

subsection \<open>Evaluation of the concrete scenes\<close>

lemma distanceTo_x_axis: "distanceTo (Vector3 a 0 0) (Vector3 b 0 0) = \<bar>a - b\<bar>"
  by (simp add: distanceTo_def distanceToSquared_def)

lemmas scenario_defs = scene_def cube_def cube_body_def hand_body_def idle_def

lemma find_closest_scene: "find_closest scene = Some cube"
  by (simp add: find_closest_def scenario_defs isGrabbable_def distanceTo_x_axis)

lemma find_closest_crowded: "find_closest crowded = Some cube"
  by (simp add: find_closest_def crowded_def scene_def cube_def ghost_def twin_def rim_def
      isGrabbable_def distanceTo_x_axis)

lemma grab_scene: "grab scene cube idle = (Returned, held)"
  by (simp add: grab_def Let_def scenario_defs held_def)

lemma holding: "onButtonDown scene idle = (Returned, held)"
proof -
  have "grabbedObject idle = None" by (simp add: idle_def)
  then have "onButtonDown scene idle = grab scene cube idle"
    by (simp add: onButtonDown_def find_closest_scene)
  then show ?thesis by (simp add: grab_scene)
qed

lemma release_held:
  "onButtonUp scene held = (Threw ReferenceError, held\<lparr>physicsWorld := []\<rparr>)"
  by (simp add: onButtonUp_def release_def Let_def held_def scene_def)

subsection \<open>Selection\<close>

text \<open>
  C1, as the code has it. The element \<^verbatim>\<open>onButtonDown\<close> selects is the first element in
  scan order that is nearest among the eligible ones: those that are not the hand, are
  marked grabbable, have a mesh attached, and lie strictly closer than 0.3 to the hand.
  When there is no such element nothing is selected. In particular a selected element
  is one of the scanned elements and its distance is below 0.3, so no element beyond the
  radius is ever selected.
\<close>

theorem nearest_eligible_selected:
  "find_closest env
     = find (nearest_in (self_id env) (handWorldPosition env) 0.3 (els env)) (els env)
   \<and> (\<forall>e. find_closest env = Some e \<longrightarrow>
          e \<in> set (els env) \<and> distanceTo (handWorldPosition env) (el_worldPosition e) < 0.3)"
  by (auto simp: find_closest_eq find_Some_iff nearest_in_def eligible_def)

text \<open>
  In the crowded scene the scan meets, in this order, the element without a mesh at 0.1,
  the element at 0.3, the cube at 0.2 and the twin at 0.2: the cube is selected.
\<close>

theorem nearest_eligible_selected_witness:
  "find_closest crowded
     = find (nearest_in 0 (Vector3 0 0 0) 0.3 [ghost, rim, cube, twin]) [ghost, rim, cube, twin]
   \<and> find_closest crowded = Some cube
   \<and> distanceTo (Vector3 0 0 0) (el_worldPosition cube) < 0.3
   \<and> distanceTo (Vector3 0 0 0) (el_worldPosition twin)
       = distanceTo (Vector3 0 0 0) (el_worldPosition cube)"
  using nearest_eligible_selected[of crowded] find_closest_crowded
  by (simp add: crowded_def scene_def cube_def twin_def distanceTo_x_axis)

text \<open>
  C1 as stated fails on two inputs. A grabbable element at distance 0.1 that is the only
  candidate is not selected when its mesh is not attached; and a grabbable element with
  a mesh at distance 0.3 exactly, the only candidate, is not selected either.
\<close>

theorem nearest_grabbable_not_selected:
  "isGrabbable ghost \<and> el_id ghost \<noteq> self_id scene
   \<and> distanceTo (handWorldPosition scene) (el_worldPosition ghost) = 0.1
   \<and> find_closest (scene\<lparr>els := [ghost]\<rparr>) = None
   \<and> isGrabbable rim \<and> el_id rim \<noteq> self_id scene \<and> el_mesh rim
   \<and> distanceTo (handWorldPosition scene) (el_worldPosition rim) = 0.3
   \<and> find_closest (scene\<lparr>els := [rim]\<rparr>) = None"
  by (simp add: find_closest_def scene_def ghost_def rim_def isGrabbable_def distanceTo_x_axis)

text \<open>
  C10. An element without a mesh is never the selected element, whatever its distance
  and its markers; and a button press on an idle component never makes it the grabbed
  object.
\<close>

theorem meshless_never_selected:
  "\<not> el_mesh e \<Longrightarrow>
     find_closest env \<noteq> Some e
     \<and> (grabbedObject s = None \<longrightarrow> grabbedObject (snd (onButtonDown env s)) \<noteq> Some e)"
proof
  assume nomesh: "\<not> el_mesh e"
  then show "find_closest env \<noteq> Some e"
    using find_closest_mesh by blast
  show "grabbedObject s = None \<longrightarrow> grabbedObject (snd (onButtonDown env s)) \<noteq> Some e"
  proof
    assume idle: "grabbedObject s = None"
    show "grabbedObject (snd (onButtonDown env s)) \<noteq> Some e"
    proof (cases "find_closest env")
      case None
      with idle show ?thesis by (simp add: onButtonDown_def)
    next
      case (Some c)
      then have "el_mesh c" by (rule find_closest_mesh)
      with nomesh have "c \<noteq> e" by auto
      moreover have "onButtonDown env s = grab env c s"
        using idle Some by (simp add: onButtonDown_def)
      ultimately show ?thesis
        using grab_grabbedObject[of env c s] idle by auto
    qed
  qed
qed

theorem meshless_never_selected_witness:
  "\<not> el_mesh ghost \<and> find_closest crowded \<noteq> Some ghost
   \<and> grabbedObject idle = None \<and> grabbedObject (snd (onButtonDown crowded idle)) \<noteq> Some ghost"
  using meshless_never_selected[of ghost crowded idle]
  by (simp add: ghost_def idle_def)

subsection \<open>Release and the failure paths of grab\<close>

text \<open>
  C3 fails on the code. In the scene the cube is grabbed and the button is released.
  \<^verbatim>\<open>release\<close> takes the constraint out of the physics world and then reads the
  identifier \<^verbatim>\<open>ammo\<close>, which is bound only inside \<^verbatim>\<open>grab\<close>: the handler ends with a
  ReferenceError, the constraint and the grabbed object stay set, and no
  \<^verbatim>\<open>grab-end\<close> is emitted.
\<close>

theorem release_throws_and_keeps_session:
  "fst (onButtonUp scene (snd (onButtonDown scene idle))) = Threw ReferenceError
   \<and> constraint (snd (onButtonUp scene (snd (onButtonDown scene idle))))
       = Some (new_constraint shifts hand_body cube_body)
   \<and> grabbedObject (snd (onButtonUp scene (snd (onButtonDown scene idle)))) = Some cube
   \<and> emitted (snd (onButtonUp scene (snd (onButtonDown scene idle)))) = [(1, ''grab-start'')]"
  by (simp add: holding release_held) (simp add: held_def)

text \<open>
  C9 fails on the code. With both bodies present and \<^verbatim>\<open>window.Ammo\<close> missing,
  \<^verbatim>\<open>grab\<close> has already stored the grabbed object when it returns; with the library
  present and the physics system missing it has stored the grabbed object and the new
  constraint when it ends with a TypeError.
\<close>

theorem grab_sets_session_before_checks:
  "grab (scene\<lparr>window_Ammo := None\<rparr>) cube idle
     = (Returned, idle\<lparr>grabbedObject := Some cube\<rparr>)
   \<and> grabbedObject (snd (grab (scene\<lparr>window_Ammo := None\<rparr>) cube idle)) = Some cube
   \<and> grab (scene\<lparr>systems_physics := False\<rparr>) cube idle
     = (Threw TypeError,
        idle\<lparr>grabbedObject := Some cube,
             constraint := Some (new_constraint shifts hand_body cube_body)\<rparr>)"
  by (simp add: grab_def Let_def scenario_defs)

subsection \<open>One session, one constraint\<close>

lemma one_session_cases:
  "one_session s \<longleftrightarrow>
     physicsWorld s = [] \<or>
     (\<exists>c b. physicsWorld s = [(c, b)] \<and> constraint s = Some c \<and> grabbedObject s \<noteq> None)"
  by (auto simp: one_session_def split: list.splits)

lemma onButtonDown_holding: "grabbedObject s \<noteq> None \<Longrightarrow> onButtonDown env s = (Returned, s)"
  by (simp add: onButtonDown_def)

lemma grab_one_session:
  "physicsWorld s = [] \<Longrightarrow> one_session (snd (grab env e s))"
  by (simp add: grab_def Let_def one_session_def split: option.splits)

lemma onButtonDown_one_session:
  assumes "one_session s" shows "one_session (snd (onButtonDown env s))"
proof (cases "grabbedObject s")
  case None
  with assms have "physicsWorld s = []" by (auto simp: one_session_cases)
  then show ?thesis
    using assms None by (simp add: onButtonDown_def grab_one_session split: option.splits)
next
  case (Some g)
  with assms show ?thesis by (simp add: onButtonDown_holding)
qed

lemma release_world:
  "one_session s \<Longrightarrow> physicsWorld (snd (release env s)) = [] \<or> snd (release env s) = s"
  by (auto simp: release_def Let_def one_session_cases split: option.splits)

lemma onButtonUp_one_session:
  assumes "one_session s" shows "one_session (snd (onButtonUp env s))"
proof -
  have "snd (onButtonUp env s) = s \<or> physicsWorld (snd (onButtonUp env s)) = []"
    using release_world[OF assms, of env] by (auto simp: onButtonUp_def)
  with assms show ?thesis by (auto simp: one_session_cases)
qed

lemma step_one_session: "one_session s \<Longrightarrow> one_session (step s ev)"
  by (cases ev) (simp_all add: onButtonDown_one_session onButtonUp_one_session)

lemma run_one_session: "one_session s \<Longrightarrow> one_session (run s evs)"
  unfolding run_def by (induction evs arbitrary: s) (simp_all add: step_one_session)

lemma run_presses_holding:
  "grabbedObject s \<noteq> None \<Longrightarrow> run s (map ButtonDown envs) = s"
  unfolding run_def by (induction envs) (simp_all add: onButtonDown_holding)

text \<open>
  C8. While an object is grabbed a button press changes nothing, however often it is
  repeated. Over every sequence of button events that starts with no constraint of the
  component in the physics world, at most one such constraint is registered at any
  time, and when one is registered it is the component's constraint and an object is
  grabbed.
\<close>

theorem single_session:
  "(grabbedObject s \<noteq> None \<longrightarrow>
      onButtonDown env s = (Returned, s) \<and> run s (map ButtonDown envs) = s)
   \<and> (physicsWorld s0 = [] \<longrightarrow>
        one_session (run s0 evs) \<and> length (physicsWorld (run s0 evs)) \<le> 1)"
proof (intro conjI impI)
  assume "physicsWorld s0 = []"
  then have "one_session s0" by (simp add: one_session_def)
  then show "one_session (run s0 evs)" by (rule run_one_session)
  then show "length (physicsWorld (run s0 evs)) \<le> 1"
    by (auto simp: one_session_cases)
qed (simp_all add: onButtonDown_holding run_presses_holding)

text \<open>
  Pressing twice in the scene leaves exactly the one constraint of the first press.
\<close>

theorem single_session_witness:
  "grabbedObject held \<noteq> None
   \<and> onButtonDown crowded held = (Returned, held)
   \<and> run held (map ButtonDown [scene, crowded]) = held
   \<and> physicsWorld idle = []
   \<and> one_session (run idle [ButtonDown scene, ButtonDown crowded, ButtonUp scene, ButtonDown scene])
   \<and> length (physicsWorld (run idle [ButtonDown scene, ButtonDown crowded, ButtonUp scene, ButtonDown scene])) \<le> 1
   \<and> physicsWorld (run idle [ButtonDown scene, ButtonDown crowded])
       = [(new_constraint shifts hand_body cube_body, True)]"
proof -
  have h: "grabbedObject held \<noteq> None" by (simp add: held_def)
  have w: "physicsWorld idle = []" by (simp add: idle_def)
  have "step idle (ButtonDown scene) = held" by (simp add: holding)
  moreover have "step held (ButtonDown crowded) = held"
    using h by (simp add: onButtonDown_def)
  ultimately have "run idle [ButtonDown scene, ButtonDown crowded] = held"
    by (simp add: run_def)
  then show ?thesis
    using single_session[of held crowded "[scene, crowded]" idle
        "[ButtonDown scene, ButtonDown crowded, ButtonUp scene, ButtonDown scene]"] h w
    by (simp add: held_def)
qed

subsection \<open>The constraint of a grab\<close>

lemma grab_constraint:
  "handBody env = Some hb \<Longrightarrow> el_body e = Some ob \<Longrightarrow> window_Ammo env = Some ammo \<Longrightarrow>
   constraint (snd (grab env e s)) = Some (new_constraint ammo hb ob)
   \<and> grabbedObject (snd (grab env e s)) = Some e"
  by (simp add: grab_def Let_def)

lemma new_constraint_limits:
  "linearLowerLimit (new_constraint ammo hb ob) = Some (Vector3 0 0 0)
   \<and> linearUpperLimit (new_constraint ammo hb ob) = Some (Vector3 0 0 0)
   \<and> angularLowerLimit (new_constraint ammo hb ob) = Some (Vector3 0 0 0)
   \<and> angularUpperLimit (new_constraint ammo hb ob) = Some (Vector3 0 0 0)
   \<and> rbA (new_constraint ammo hb ob) = body_id hb \<and> rbB (new_constraint ammo hb ob) = body_id ob"
  by (simp add: new_constraint_def zero_limit_def Let_def)

lemma frame_independent_of_bodies:
  assumes "\<And>b t. getWorldTransform ammo b t = t" and "\<And>t. inverse_tr ammo t = t"
    and "\<And>r a b b'. op_mul ammo r a b = op_mul ammo r a b'"
  shows "frameInA (new_constraint ammo hb ob) = frameInA (new_constraint ammo hb' ob')"
  using assms by (simp add: new_constraint_def Let_def)

text \<open>
  C5 fails on the code. \<^verbatim>\<open>grab\<close> passes a fresh transform to the body's getter, which
  reads no argument, drops the transform \<^verbatim>\<open>inverse\<close> returns, and gives \<^verbatim>\<open>op_mul\<close> a second
  argument it does not read. With the hand at 5 and the cube at 7 the offset of the cube
  in the hand's frame is 2, and the constraint's frame in the hand is 0; it is the same
  for every other pair of transforms of the two bodies. The four limits are the zero
  vector, as the claim says.
\<close>

theorem grab_frame_ignores_bodies:
  "worldTransform hand_body = 5 \<and> worldTransform cube_body = 7
   \<and> - worldTransform hand_body + worldTransform cube_body = 2
   \<and> constraint (snd (grab (scene\<lparr>window_Ammo := Some ammo_js\<rparr>) cube idle))
       = Some \<lparr>rbA = 0, rbB = 1, frameInA = 0, frameInB = 0, useLinearReferenceFrameA = False,
               linearLowerLimit = Some (Vector3 0 0 0), linearUpperLimit = Some (Vector3 0 0 0),
               angularLowerLimit = Some (Vector3 0 0 0),
               angularUpperLimit = Some (Vector3 0 0 0)\<rparr>
   \<and> frameInA (new_constraint ammo_js hand_body cube_body)
       = frameInA (new_constraint ammo_js (hand_body\<lparr>worldTransform := 100\<rparr>)
                     (cube_body\<lparr>worldTransform := - 3\<rparr>))"
  by (simp add: grab_def new_constraint_def zero_limit_def Let_def scenario_defs ammo_js_def)


section \<open>Properties of the teleport arc\<close>

subsection \<open>The loop of tick\<close>

declare tick_loop.simps [simp del]

lemma sample_pos_parabola: "sample_pos env i = parabola env i"
  by (simp add: sample_pos_def parabola_def Let_def addScaledVector_def multiplyScalar_def
      power2_eq_square algebra_simps)

lemma length_subVectors: "length_vec (subVectors q p) = distanceTo p q"
  by (simp add: length_vec_def subVectors_def distanceTo_def distanceToSquared_def algebra_simps)

lemma first_landing_find: "first_landing cls xs = map_option point (find (is_landing cls) xs)"
  by (induction xs) simp_all

lemma iter_check_0: "iter_check env 0 = None"
  by (simp add: iter_check_def prev_of_def segment_hit_def)

lemma iter_check_Suc: "iter_check env (Suc k) = segment env k"
  by (simp add: iter_check_def prev_of_def segment_hit_def segment_def segment_landing_def
      Let_def length_subVectors first_landing_find sample_pos_parabola)

lemma first_some_Cons:
  "first_some (x # xs) = (case x of None \<Rightarrow> first_some xs | Some h \<Rightarrow> Some h)"
  by (cases x) simp_all

lemma tick_loop_hit:
  "prev = prev_of env i \<Longrightarrow>
   fst (tick_loop env i prev buf) = first_some (map (iter_check env) [i..<nat (samples (data env))])"
proof (induction env i prev buf rule: tick_loop.induct)
  case (1 env i prevPoint buf)
  show ?case
  proof (cases "int i < samples (data env)")
    case False
    then show ?thesis by (subst tick_loop.simps) simp
  next
    case True
    then have upt: "[i..<nat (samples (data env))] = i # [Suc i..<nat (samples (data env))]"
      by (simp add: upt_conv_Cons)
    have chk: "segment_hit env prevPoint (sample_pos env i) = iter_check env i"
      using "1.prems" by (simp add: iter_check_def)
    show ?thesis
    proof (cases "iter_check env i")
      case None
      have "fst (tick_loop env (Suc i) (Some (sample_pos env i)) (write_sample buf i (sample_pos env i)))
            = first_some (map (iter_check env) [Suc i..<nat (samples (data env))])"
        using "1.IH"[OF True] None chk by (simp add: prev_of_def)
      then show ?thesis
        using True None chk by (subst tick_loop.simps) (simp add: upt first_some_Cons)
    next
      case (Some h)
      then show ?thesis
        using True chk by (subst tick_loop.simps) (simp add: upt first_some_Cons)
    qed
  qed
qed

lemma first_some_shift:
  "first_some (map (iter_check env) [0..<n]) = first_some (map (segment env) [0..<n - 1])"
proof (cases n)
  case 0
  then show ?thesis by simp
next
  case (Suc m)
  have "[0..<Suc m] = 0 # map Suc [0..<m]"
    by (simp add: upt_conv_Cons map_Suc_upt del: upt_Suc)
  then show ?thesis
    using Suc by (simp add: iter_check_0 iter_check_Suc comp_def del: upt_Suc)
qed

lemma tick_loop_arc_hit: "fst (tick_loop env 0 None buf) = arc_hit env"
  using tick_loop_hit[of None env 0 buf]
  by (simp add: prev_of_def arc_hit_def first_some_shift)

lemma length_write_sample: "length (write_sample buf i p) = length buf"
  by (simp add: write_sample_def)

lemma nth_write_sample:
  assumes "j < length buf"
  shows "write_sample buf i p ! j = (if j div 3 = i then coord p (j mod 3) else buf ! j)"
proof -
  have "j = i * 3 \<or> j = i * 3 + 1 \<or> j = i * 3 + 2 \<or> j div 3 \<noteq> i"
    by presburger
  then consider (x) "j = i * 3" | (y) "j = i * 3 + 1" | (z) "j = i * 3 + 2" | (other) "j div 3 \<noteq> i"
    by blast
  then show ?thesis
  proof cases
    case x
    then have "j div 3 = i" "j mod 3 = 0" by presburger+
    then show ?thesis using assms x by (simp add: write_sample_def coord_def)
  next
    case y
    then have "j div 3 = i" "j mod 3 = 1" by presburger+
    then show ?thesis using assms y by (simp add: write_sample_def coord_def)
  next
    case z
    then have "j div 3 = i" "j mod 3 = 2" by presburger+
    then show ?thesis using assms z by (simp add: write_sample_def coord_def)
  next
    case other
    then have "j \<noteq> i * 3" "j \<noteq> i * 3 + 1" "j \<noteq> i * 3 + 2" by presburger+
    with other show ?thesis by (simp add: write_sample_def)
  qed
qed

lemma length_tick_loop: "length (snd (tick_loop env i prev buf)) = length buf"
proof (induction env i prev buf rule: tick_loop.induct)
  case (1 env i prevPoint buf)
  show ?case
    using "1.IH" by (subst tick_loop.simps) (simp add: length_write_sample split: option.splits)
qed

lemma written_self: "written env i i \<longleftrightarrow> int i < samples (data env)"
  by (auto simp: written_def)

lemma written_hit: "iter_check env i \<noteq> None \<Longrightarrow> written env i m \<longleftrightarrow> m = i \<and> int i < samples (data env)"
  by (auto simp: written_def)

lemma written_step:
  "iter_check env i = None \<Longrightarrow> int i < samples (data env) \<Longrightarrow>
   written env i m \<longleftrightarrow> m = i \<or> written env (Suc i) m"
  by (auto simp: written_def Suc_le_eq) (metis le_neq_implies_less Suc_leI le_antisym not_less_eq_eq)+

lemma tick_loop_buf:
  "prev = prev_of env i \<Longrightarrow> j < length buf \<Longrightarrow>
   snd (tick_loop env i prev buf) ! j
     = (if written env i (j div 3) then coord (sample_pos env (j div 3)) (j mod 3) else buf ! j)"
proof (induction env i prev buf rule: tick_loop.induct)
  case (1 env i prevPoint buf)
  show ?case
  proof (cases "int i < samples (data env)")
    case False
    then have "\<not> written env i (j div 3)" by (auto simp: written_def)
    with False show ?thesis by (subst tick_loop.simps) simp
  next
    case True
    have chk: "segment_hit env prevPoint (sample_pos env i) = iter_check env i"
      using "1.prems" by (simp add: iter_check_def)
    show ?thesis
    proof (cases "iter_check env i")
      case None
      let ?buf = "write_sample buf i (sample_pos env i)"
      have "snd (tick_loop env (Suc i) (Some (sample_pos env i)) ?buf) ! j
            = (if written env (Suc i) (j div 3) then coord (sample_pos env (j div 3)) (j mod 3)
               else ?buf ! j)"
        using "1.IH"[OF True] None chk "1.prems" by (simp add: prev_of_def length_write_sample)
      then show ?thesis
        using True None chk "1.prems"
        by (subst tick_loop.simps) (auto simp: nth_write_sample written_step)
    next
      case (Some h)
      then show ?thesis
        using True chk "1.prems"
        by (subst tick_loop.simps) (auto simp: nth_write_sample written_hit)
    qed
  qed
qed

lemma tick_visible:
  "visible s \<Longrightarrow>
     hitPoint (tick env s) = fst (tick_loop env 0 None (positions s))
     \<and> positions (tick env s) = snd (tick_loop env 0 None (positions s))"
  by (simp add: tick_def split: prod.splits option.splits)

lemma written_0: "written env 0 i \<longleftrightarrow> int i < samples (data env) \<and> (\<forall>k. Suc k < i \<longrightarrow> segment env k = None)"
proof -
  have "(\<forall>k. k < i \<longrightarrow> iter_check env k = None) \<longleftrightarrow> (\<forall>k. Suc k < i \<longrightarrow> segment env k = None)"
  proof
    assume a: "\<forall>k. k < i \<longrightarrow> iter_check env k = None"
    show "\<forall>k. Suc k < i \<longrightarrow> segment env k = None"
      using a iter_check_Suc by metis
  next
    assume b: "\<forall>k. Suc k < i \<longrightarrow> segment env k = None"
    show "\<forall>k. k < i \<longrightarrow> iter_check env k = None"
    proof (intro allI impI)
      fix k assume "k < i"
      then show "iter_check env k = None"
        using b by (cases k) (simp_all add: iter_check_0 iter_check_Suc)
    qed
  qed
  then show ?thesis by (simp add: written_def)
qed

lemma tick_buf:
  "visible s \<Longrightarrow> j < length (positions s) \<Longrightarrow>
   positions (tick env s) ! j
     = (if written env 0 (j div 3) then coord (parabola env (j div 3)) (j mod 3)
        else positions s ! j)"
  using tick_loop_buf[of None env 0 j "positions s"]
  by (simp add: tick_visible prev_of_def sample_pos_parabola)

lemma hit_segment_Some:
  "hit_segment env = Some k \<Longrightarrow> segment env k \<noteq> None \<and> int (Suc k) < samples (data env)"
  by (auto simp: hit_segment_def find_Some_iff)

lemma drop_after_hit:
  assumes "visible s" and "hit_segment env = Some k"
  shows "drop (3 * (k + 2)) (positions (tick env s)) = drop (3 * (k + 2)) (positions s)"
proof (rule nth_equalityI)
  show "length (drop (3 * (k + 2)) (positions (tick env s))) = length (drop (3 * (k + 2)) (positions s))"
    using assms(1) by (simp add: tick_visible length_tick_loop)
next
  fix j assume "j < length (drop (3 * (k + 2)) (positions (tick env s)))"
  then have j: "3 * (k + 2) + j < length (positions s)"
    using assms(1) by (simp add: tick_visible length_tick_loop)
  have "k + 2 \<le> (3 * (k + 2) + j) div 3" by presburger
  then have "Suc k < (3 * (k + 2) + j) div 3" by simp
  then have "\<not> written env 0 ((3 * (k + 2) + j) div 3)"
    using hit_segment_Some[OF assms(2)] by (auto simp: written_0)
  then have "positions (tick env s) ! (3 * (k + 2) + j) = positions s ! (3 * (k + 2) + j)"
    using tick_buf[OF assms(1) j, of env] by simp
  then show "drop (3 * (k + 2)) (positions (tick env s)) ! j = drop (3 * (k + 2)) (positions s) ! j"
    using j assms(1) by (simp add: tick_visible length_tick_loop)
qed

subsection \<open>Evaluation of the concrete scenes\<close>

lemma normalize_forward: "normalize_vec (Vector3 0 0 (- 1)) = Vector3 0 0 (- 1)"
  by (simp add: normalize_vec_def length_vec_def divideScalar_def)

lemma parabola_near_floor:
  "parabola near_floor 0 = Vector3 0 0 0"
  "parabola near_floor (Suc 0) = Vector3 0 (- 0.01764) (- 0.36)"
  "parabola near_floor 2 = Vector3 0 (- 0.07056) (- 0.72)"
  by (simp_all add: parabola_def near_floor_def three_samples_def normalize_forward
      multiplyScalar_def power2_eq_square)

lemma parabola_open_sky: "parabola open_sky i = parabola near_floor i"
  by (simp add: parabola_def open_sky_def)

lemma segment_near_floor_0: "segment near_floor 0 = Some (Vector3 0 0 0)"
proof -
  have "segment near_floor 0
        = segment_landing near_floor (Vector3 0 0 0) (Vector3 0 (- 0.01764) (- 0.36))"
    by (simp add: segment_def parabola_near_floor)
  also have "\<dots> = Some (Vector3 0 0 0)"
    by (simp add: segment_landing_def near_floor_def three_samples_def floor_here_def
        is_landing_def distanceTo_def distanceToSquared_def)
  finally show ?thesis .
qed

lemma aiming_simps:
  "visible aiming" "positions aiming = replicate 9 0" "length (positions aiming) = 9"
  by (simp_all add: aiming_def showArc_def teleport_init_def three_samples_def)

lemma segments_near_floor: "[0..<nat (samples (data near_floor)) - 1] = [0, Suc 0]"
  by (simp add: near_floor_def three_samples_def upt_rec)

lemma hit_segment_near_floor: "hit_segment near_floor = Some 0"
  unfolding hit_segment_def segments_near_floor by (simp add: segment_near_floor_0)

lemma arc_hit_near_floor: "arc_hit near_floor = Some (Vector3 0 0 0)"
  unfolding arc_hit_def segments_near_floor by (simp add: segment_near_floor_0)

lemma landed_simps:
  "visible landed" "hitPoint landed = Some (Vector3 0 0 (- 5))"
  "rig_position landed = Vector3 0 0 0"
  by (simp_all add: landed_def aiming_def showArc_def teleport_init_def)

subsection \<open>The trajectory samples\<close>

text \<open>
  C6, as the code has it. In a frame while aiming, every sample index \<open>i\<close> below the sample
  count that the loop reaches (no segment before it had a landing hit) and that lies
  within the buffer holds the point \<open>origin + v0 (i dt) + g (i dt)\<^sup>2 / 2\<close>.
\<close>

theorem samples_follow_parabola:
  assumes "visible s" and "int i < samples (data env)"
    and "\<forall>k. Suc k < i \<longrightarrow> segment env k = None"
    and "i * 3 + 2 < length (positions s)"
  shows "positions (tick env s) ! (i * 3) = vec_x (parabola env i)
         \<and> positions (tick env s) ! (i * 3 + 1) = vec_y (parabola env i)
         \<and> positions (tick env s) ! (i * 3 + 2) = vec_z (parabola env i)"
proof -
  have w: "written env 0 i" using assms(2,3) by (simp add: written_0)
  have d: "(i * 3) div 3 = i" "(i * 3 + 1) div 3 = i" "(i * 3 + 2) div 3 = i"
          "(i * 3) mod 3 = 0" "(i * 3 + 1) mod 3 = 1" "(i * 3 + 2) mod 3 = 2"
    by presburger+
  have "positions (tick env s) ! (i * 3) = vec_x (parabola env i)"
    using tick_buf[OF assms(1), of "i * 3" env] assms(4) w d by (simp add: coord_def)
  moreover have "positions (tick env s) ! (i * 3 + 1) = vec_y (parabola env i)"
    using tick_buf[OF assms(1), of "i * 3 + 1" env] assms(4) w d by (simp add: coord_def)
  moreover have "positions (tick env s) ! (i * 3 + 2) = vec_z (parabola env i)"
    using tick_buf[OF assms(1), of "i * 3 + 2" env] assms(4) w d by (simp add: coord_def)
  ultimately show ?thesis by simp
qed

text \<open>
  With nothing to hit, the third sample of the three is the point of the parabola at
  \<open>t = 0.12\<close>.
\<close>

theorem samples_follow_parabola_witness:
  "visible aiming \<and> int 2 < samples (data open_sky) \<and> 2 * 3 + 2 < length (positions aiming)
   \<and> positions (tick open_sky aiming) ! (2 * 3) = 0
   \<and> positions (tick open_sky aiming) ! (2 * 3 + 1) = - 0.07056
   \<and> positions (tick open_sky aiming) ! (2 * 3 + 2) = - 0.72"
proof -
  have a: "visible aiming" by (simp add: aiming_simps)
  have b: "int 2 < samples (data open_sky)"
    by (simp add: open_sky_def near_floor_def three_samples_def)
  have c: "\<forall>k. Suc k < 2 \<longrightarrow> segment open_sky k = None"
    by (simp add: segment_def segment_landing_def open_sky_def)
  have d: "2 * 3 + 2 < length (positions aiming)" by (simp add: aiming_simps)
  show ?thesis
    using samples_follow_parabola[OF a b c d] a b d
    by (simp add: parabola_open_sky parabola_near_floor)
qed

text \<open>
  C6 as stated fails where the loop stops early. In the first frame the first segment
  hits the floor, the loop ends, and the third sample of the buffer keeps the value it
  had, 0, while the parabola is at \<open>- 0.72\<close>.
\<close>

theorem stale_sample_after_hit:
  "visible aiming \<and> int 2 < samples (data near_floor) \<and> 2 * 3 + 2 < length (positions aiming)
   \<and> positions (tick near_floor aiming) ! (2 * 3 + 2) = 0
   \<and> vec_z (parabola near_floor 2) = - 0.72"
proof -
  have "\<not> written near_floor 0 2"
    using segment_near_floor_0 by (auto simp: written_0)
  then have "positions (tick near_floor aiming) ! 8 = positions aiming ! 8"
    using tick_buf[of aiming 8 near_floor] by (simp add: aiming_simps)
  then show ?thesis
    by (simp add: aiming_simps parabola_near_floor) (simp add: near_floor_def three_samples_def)
qed

subsection \<open>The landing hit\<close>

text \<open>
  C7. In a frame while aiming, the landing hit \<^verbatim>\<open>tick\<close> records is the hit of the first
  segment between consecutive samples, in order, that has one, and it is cleared when no
  segment has one; the hit of a segment is the point of the first intersection on a
  landing surface of the ray from the earlier sample toward the later one, with their
  distance as range. Sampling stops at the hit: the buffer behind the end of the hit
  segment is left as it was. Hiding the arc clears the landing hit, and a frame while
  hidden changes nothing.
\<close>

theorem landing_hit_is_first_segment_hit:
  "visible s \<Longrightarrow>
     hitPoint (tick env s) = arc_hit env
     \<and> (\<forall>k. hit_segment env = Some k \<longrightarrow>
          drop (3 * (k + 2)) (positions (tick env s)) = drop (3 * (k + 2)) (positions s))
     \<and> hitPoint (hideArc s) = None \<and> tick env (hideArc s) = hideArc s"
proof (intro conjI allI impI)
  assume v: "visible s"
  then show "hitPoint (tick env s) = arc_hit env"
    by (simp add: tick_visible tick_loop_arc_hit)
  show "hitPoint (hideArc s) = None" by (simp add: hideArc_def)
  show "tick env (hideArc s) = hideArc s" by (simp add: hideArc_def tick_def)
  fix k assume "hit_segment env = Some k"
  with v show "drop (3 * (k + 2)) (positions (tick env s)) = drop (3 * (k + 2)) (positions s)"
    by (rule drop_after_hit)
qed

text \<open>
  Near the floor the first segment hits at its origin, so the samples from the third on
  are left alone.
\<close>

theorem landing_hit_is_first_segment_hit_witness:
  "visible aiming \<and> hitPoint (tick near_floor aiming) = Some (Vector3 0 0 0)
   \<and> hit_segment near_floor = Some 0
   \<and> drop 6 (positions (tick near_floor aiming)) = drop 6 (positions aiming)
   \<and> hitPoint (hideArc aiming) = None"
  using landing_hit_is_first_segment_hit[of aiming near_floor]
  by (simp add: aiming_simps arc_hit_near_floor hit_segment_near_floor)

subsection \<open>Teleporting\<close>

lemma doTeleport_no_target:
  "visible s \<Longrightarrow> hitPoint s = None \<or> cameraRig env = None \<Longrightarrow> doTeleport env s = hideArc s"
  by (auto simp: doTeleport_def split: option.splits)

lemma rig_position_hideArc: "rig_position (hideArc s) = rig_position s"
  by (simp add: hideArc_def)

lemma doTeleport_moves_rig:
  assumes "visible s" and "hitPoint s = Some hit" and "cameraRig env = Some rigEl"
    and "camera env = Some cameraWorldPos"
    and "\<not> has_ammo_body rigEl \<or> rig_el_body rigEl = None
         \<or> (\<exists>b. rig_el_body rigEl = Some b \<and> try_throws (cannon env) b)"
    and "\<And>p v. rig_parent rigEl = Some p \<Longrightarrow> localToWorld p (worldToLocal p v) = v"
  shows "getWorldPosition rigEl (rig_position (doTeleport env s))
           = sub hit (sub cameraWorldPos (getWorldPosition rigEl (rig_position s)))"
    and "doTeleport env s
           = hideArc (assign_position rigEl
               (sub hit (sub cameraWorldPos (getWorldPosition rigEl (rig_position s)))) s)"
proof -
  show eq: "doTeleport env s
           = hideArc (assign_position rigEl
               (sub hit (sub cameraWorldPos (getWorldPosition rigEl (rig_position s)))) s)"
    using assms(1-5) by (auto simp: doTeleport_def Let_def split: option.splits)
  show "getWorldPosition rigEl (rig_position (doTeleport env s))
           = sub hit (sub cameraWorldPos (getWorldPosition rigEl (rig_position s)))"
    using assms(6)
    by (simp add: eq rig_position_hideArc assign_position_def getWorldPosition_def
        split: option.splits)
qed

text \<open>
  C4 fails on the code. With a recorded hit and a rig but no camera, \<^verbatim>\<open>doTeleport\<close>
  returns before it reaches \<^verbatim>\<open>hideArc\<close>: the state is unchanged, the arc stays visible
  and the hit stays recorded.
\<close>

theorem teleport_without_camera_stays_aiming:
  "visible landed \<and> hitPoint landed = Some (Vector3 0 0 (- 5))
   \<and> cameraRig (near_floor\<lparr>camera := None\<rparr>) = Some plain_rig
   \<and> doTeleport (near_floor\<lparr>camera := None\<rparr>) landed = landed
   \<and> visible (doTeleport (near_floor\<lparr>camera := None\<rparr>) landed)
   \<and> hitPoint (doTeleport (near_floor\<lparr>camera := None\<rparr>) landed) = Some (Vector3 0 0 (- 5))"
  by (simp add: doTeleport_def landed_simps near_floor_def)

lemma try_throws_page:
  "cannon env = Undeclared \<or> cannon env = Not_a_constructor \<Longrightarrow>
   setWorldTransform b \<noteq> None \<Longrightarrow> try_throws (cannon env) b"
  by (auto simp: try_throws_def split: option.splits)

lemma hideArc_fields: "\<not> visible (hideArc s)" "hitPoint (hideArc s) = None"
  "\<not> line_visible (hideArc s)" "\<not> cursorMesh_visible (hideArc s)"
  by (simp_all add: hideArc_def)

lemma sub_sub_cancel: "sub hit (sub hit off) = off"
  by (cases hit, cases off) (simp add: sub_def)

text \<open>
  C2. The page is one the named libraries make: \<^verbatim>\<open>CANNON\<close> is not a constructor, and the
  rig's body, when it has one, has \<^verbatim>\<open>setWorldTransform\<close>. Then every teleport with a
  recorded hit, a camera and a rig takes the offset of the camera from the rig's world
  position, subtracts it from the hit, converts the result into the parent's space when
  the rig has a parent, and assigns it to the rig's position. When the parent's two
  conversions are inverse to each other, the rig's new world position is the hit minus
  the offset, so the hit lies at the camera's old offset from the rig. Afterwards the arc
  is hidden and the hit is cleared.
\<close>

theorem teleport_preserves_offset:
  assumes "visible s" and "hitPoint s = Some hit" and "cameraRig env = Some rigEl"
    and "camera env = Some cameraWorldPos"
    and "cannon env = Undeclared \<or> cannon env = Not_a_constructor"
    and "\<forall>b. rig_el_body rigEl = Some b \<longrightarrow> setWorldTransform b \<noteq> None"
  shows "rig_position (doTeleport env s)
           = (case rig_parent rigEl of
                None \<Rightarrow> sub hit (sub cameraWorldPos (getWorldPosition rigEl (rig_position s)))
              | Some p \<Rightarrow>
                  worldToLocal p
                    (sub hit (sub cameraWorldPos (getWorldPosition rigEl (rig_position s)))))
         \<and> ((\<forall>p v. rig_parent rigEl = Some p \<longrightarrow> localToWorld p (worldToLocal p v) = v) \<longrightarrow>
              getWorldPosition rigEl (rig_position (doTeleport env s))
                = sub hit (sub cameraWorldPos (getWorldPosition rigEl (rig_position s)))
              \<and> sub hit (getWorldPosition rigEl (rig_position (doTeleport env s)))
                = sub cameraWorldPos (getWorldPosition rigEl (rig_position s)))
         \<and> \<not> visible (doTeleport env s) \<and> \<not> line_visible (doTeleport env s)
         \<and> \<not> cursorMesh_visible (doTeleport env s) \<and> hitPoint (doTeleport env s) = None"
proof -
  let ?new = "sub hit (sub cameraWorldPos (getWorldPosition rigEl (rig_position s)))"
  have thr: "\<not> has_ammo_body rigEl \<or> rig_el_body rigEl = None
         \<or> (\<exists>b. rig_el_body rigEl = Some b \<and> try_throws (cannon env) b)"
  proof (cases "rig_el_body rigEl")
    case None
    then show ?thesis by simp
  next
    case (Some b)
    with assms(6) have "setWorldTransform b \<noteq> None" by simp
    with assms(5) have "try_throws (cannon env) b" by (rule try_throws_page)
    with Some show ?thesis by simp
  qed
  have eq: "doTeleport env s = hideArc (assign_position rigEl ?new s)"
    using assms(1-4) thr by (auto simp: doTeleport_def Let_def split: option.splits)
  have pos: "rig_position (doTeleport env s)
           = (case rig_parent rigEl of None \<Rightarrow> ?new | Some p \<Rightarrow> worldToLocal p ?new)"
    by (simp add: eq rig_position_hideArc assign_position_def)
  have world: "getWorldPosition rigEl (rig_position (doTeleport env s)) = ?new"
    if "\<forall>p v. rig_parent rigEl = Some p \<longrightarrow> localToWorld p (worldToLocal p v) = v"
    using that by (simp add: pos getWorldPosition_def split: option.splits)
  show ?thesis
    using pos world by (simp add: eq hideArc_fields sub_sub_cancel)
qed

text \<open>
  A rig with a physics body under the shifted parent: the rig goes from world position
  \<open>(1, 0, 0)\<close> to \<open>(1, - 1.6, - 5)\<close>, stored as \<open>(0, - 1.6, - 5)\<close>.
\<close>

theorem teleport_preserves_offset_witness:
  "rig_position (doTeleport (near_floor\<lparr>cameraRig := Some ammo_rig\<rparr>) landed)
     = Vector3 0 (- 1.6) (- 5)
   \<and> getWorldPosition ammo_rig (rig_position landed) = Vector3 1 0 0
   \<and> getWorldPosition ammo_rig
        (rig_position (doTeleport (near_floor\<lparr>cameraRig := Some ammo_rig\<rparr>) landed))
       = Vector3 1 (- 1.6) (- 5)
   \<and> sub (Vector3 0 0 (- 5))
        (getWorldPosition ammo_rig
          (rig_position (doTeleport (near_floor\<lparr>cameraRig := Some ammo_rig\<rparr>) landed)))
       = sub (Vector3 0 1.6 0) (Vector3 1 0 0)
   \<and> \<not> visible (doTeleport (near_floor\<lparr>cameraRig := Some ammo_rig\<rparr>) landed)
   \<and> hitPoint (doTeleport (near_floor\<lparr>cameraRig := Some ammo_rig\<rparr>) landed) = None"
proof -
  let ?env = "near_floor\<lparr>cameraRig := Some ammo_rig\<rparr>"
  have a: "visible landed" by (simp add: landed_simps)
  have b: "hitPoint landed = Some (Vector3 0 0 (- 5))" by (simp add: landed_simps)
  have c: "cameraRig ?env = Some ammo_rig" by simp
  have d: "camera ?env = Some (Vector3 0 1.6 0)" by (simp add: near_floor_def)
  have e: "cannon ?env = Undeclared \<or> cannon ?env = Not_a_constructor"
    by (simp add: near_floor_def)
  have f: "\<forall>b. rig_el_body ammo_rig = Some b \<longrightarrow> setWorldTransform b \<noteq> None"
    by (simp add: ammo_rig_def)
  have g: "\<forall>p v. rig_parent ammo_rig = Some p \<longrightarrow> localToWorld p (worldToLocal p v) = v"
  proof (intro allI impI)
    fix p v assume "rig_parent ammo_rig = Some p"
    then have "p = shifted_parent" by (simp add: ammo_rig_def)
    then show "localToWorld p (worldToLocal p v) = v"
      by (cases v) (simp add: shifted_parent_def sub_def addScaledVector_def)
  qed
  have w: "getWorldPosition ammo_rig (rig_position landed) = Vector3 1 0 0"
    by (simp add: getWorldPosition_def ammo_rig_def shifted_parent_def landed_simps
        addScaledVector_def)
  have rp: "rig_parent ammo_rig = Some shifted_parent" by (simp add: ammo_rig_def)
  note t = teleport_preserves_offset[OF a b c d e f]
  have new: "sub (Vector3 0 0 (- 5)) (sub (Vector3 0 1.6 0) (Vector3 1 0 0))
               = Vector3 1 (- 1.6) (- 5)"
    by (simp add: sub_def)
  have "rig_position (doTeleport ?env landed)
          = worldToLocal shifted_parent (Vector3 1 (- 1.6) (- 5))"
    using t[THEN conjunct1] unfolding rp w new by simp
  then have local: "rig_position (doTeleport ?env landed) = Vector3 0 (- 1.6) (- 5)"
    by (simp add: shifted_parent_def sub_def)
  have tw: "getWorldPosition ammo_rig (rig_position (doTeleport ?env landed))
                = sub (Vector3 0 0 (- 5))
                    (sub (Vector3 0 1.6 0) (getWorldPosition ammo_rig (rig_position landed)))
              \<and> sub (Vector3 0 0 (- 5))
                  (getWorldPosition ammo_rig (rig_position (doTeleport ?env landed)))
                = sub (Vector3 0 1.6 0) (getWorldPosition ammo_rig (rig_position landed))"
    using t[THEN conjunct2, THEN conjunct1] g by blast
  have world: "getWorldPosition ammo_rig (rig_position (doTeleport ?env landed))
                 = Vector3 1 (- 1.6) (- 5)"
    using tw unfolding w new by blast
  have off: "sub (Vector3 0 0 (- 5))
               (getWorldPosition ammo_rig (rig_position (doTeleport ?env landed)))
             = sub (Vector3 0 1.6 0) (Vector3 1 0 0)"
    using tw unfolding w by blast
  have hid: "\<not> visible (doTeleport ?env landed)" "hitPoint (doTeleport ?env landed) = None"
    using t by blast+
  show ?thesis
    using local w world off hid by blast
qed

text \<open>
  The other paths of the \<^verbatim>\<open>try\<close> block: when the body has no \<^verbatim>\<open>setWorldTransform\<close>, or
  when \<^verbatim>\<open>CANNON\<close> and \<^verbatim>\<open>CANNON.Transform\<close> are constructors and the call returns, the
  block ends without an exception and no branch assigns the new position.
\<close>

lemma try_without_exception_leaves_rig:
  "visible landed \<and> hitPoint landed = Some (Vector3 0 0 (- 5))
   \<and> camera (near_floor\<lparr>cameraRig := Some physics_rig\<rparr>) = Some (Vector3 0 1.6 0)
   \<and> getWorldPosition physics_rig (rig_position landed) = Vector3 0 0 0
   \<and> sub (Vector3 0 0 (- 5)) (sub (Vector3 0 1.6 0) (Vector3 0 0 0)) = Vector3 0 (- 1.6) (- 5)
   \<and> getWorldPosition physics_rig
        (rig_position (doTeleport (near_floor\<lparr>cameraRig := Some physics_rig\<rparr>) landed))
       = Vector3 0 0 0
   \<and> getWorldPosition physics_rig
        (rig_position
          (doTeleport
            (near_floor\<lparr>cameraRig :=
               Some (physics_rig\<lparr>rig_el_body := Some \<lparr>setWorldTransform = Some Call_returns\<rparr>\<rparr>),
               cannon := Constructor True\<rparr>) landed))
       = Vector3 0 0 0"
  by (simp add: doTeleport_def landed_simps near_floor_def physics_rig_def try_throws_def
      getWorldPosition_def sub_def Let_def rig_position_hideArc)

end
